theory Spec2Isabelle
  imports Main "HOL-Library.Word"
begin

section \<open>JavaScript strings\<close>

text \<open>
  A JavaScript string is a sequence of UTF-16 code units. The pages compare strings with
  the empty string, split them at line feeds and trim them, so the model keeps the code
  units: \<open>length\<close> is JavaScript's \<open>.length\<close>, and \<open>s \<noteq> []\<close> is the truthiness of a string.
\<close>

type_synonym js_string = "16 word list"

definition js :: "string \<Rightarrow> js_string" where
  \<comment> \<open>An ASCII literal of the source, as code units.\<close>
  "js s = map (\<lambda>c. of_nat (of_char c)) s"

definition LF :: "16 word" where
  \<comment> \<open>The separator of \<open>split('\n')\<close>.\<close>
  "LF = 0x000A"

definition is_js_whitespace :: "16 word \<Rightarrow> bool" where
  \<comment> \<open>What \<open>String.prototype.trim\<close> strips: ECMAScript's WhiteSpace (TAB, VT, FF, SP,
      NBSP, ZWNBSP and the Unicode space separators) and LineTerminator (LF, CR, LS, PS).\<close>
  "is_js_whitespace c = (c \<in> set [0x0009, 0x000A, 0x000B, 0x000C, 0x000D, 0x0020, 0x00A0,
     0x1680, 0x2000, 0x2001, 0x2002, 0x2003, 0x2004, 0x2005, 0x2006, 0x2007, 0x2008, 0x2009,
     0x200A, 0x2028, 0x2029, 0x202F, 0x205F, 0x3000, 0xFEFF])"

definition trim :: "js_string \<Rightarrow> js_string" where
  "trim s = rev (dropWhile is_js_whitespace (rev (dropWhile is_js_whitespace s)))"

fun split_js :: "16 word \<Rightarrow> js_string \<Rightarrow> js_string list" where
  \<comment> \<open>\<open>s.split(sep)\<close> for a one-unit separator: \<open>''.split(sep)\<close> is \<open>['']\<close>, and a trailing
      separator gives a last empty piece.\<close>
  "split_js sep [] = [[]]"
| "split_js sep (c # cs) =
     (if c = sep then [] # split_js sep cs
      else (case split_js sep cs of
              l # ls \<Rightarrow> (c # l) # ls
            | [] \<Rightarrow> [[c]]))"

fun join_js :: "16 word \<Rightarrow> js_string list \<Rightarrow> js_string" where
  \<comment> \<open>\<open>pieces.join(sep)\<close>, used to say what \<open>split_js\<close> computes.\<close>
  "join_js sep [] = []"
| "join_js sep [l] = l"
| "join_js sep (l # m # ls) = l @ sep # join_js sep (m # ls)"

section \<open>AdminPage: the crawl form\<close>

text \<open>String literals of \<open>AdminPage.tsx\<close>, as UTF-16 code units.\<close>

definition msg_at_least_one_url :: js_string where
  \<comment> \<open>The Japanese sentence "Please enter at least one URL."\<close>
  "msg_at_least_one_url =
     [0x6700, 0x4F4E, 0x0031, 0x3064, 0x306E, 0x0055, 0x0052, 0x004C, 0x3092, 0x5165,
      0x529B, 0x3057, 0x3066, 0x304F, 0x3060, 0x3055, 0x3044, 0x3002]"

datatype CrawlPayload = CrawlPayload (payload_urls: "js_string list")

text \<open>
  The component's state (\<open>useState\<close>), the mutation's \<open>isPending\<close>, and the calls made to
  the collaborator \<open>adminApi.triggerCrawl\<close>, in order.
\<close>

record admin_state =
  urls :: js_string
  admin_successMessage :: "js_string option"
  errorMessage :: "js_string option"
  admin_isPending :: bool
  triggerCrawl_calls :: "CrawlPayload list"

definition admin_mutate :: "CrawlPayload \<Rightarrow> admin_state \<Rightarrow> admin_state" where
  \<comment> \<open>\<open>mutate(payload)\<close>: \<open>onMutate\<close> clears both messages, then \<open>mutationFn\<close> calls
      \<open>adminApi.triggerCrawl({ crawlPayload: payload })\<close>.\<close>
  "admin_mutate payload st =
     st\<lparr>admin_successMessage := None, errorMessage := None, admin_isPending := True,
        triggerCrawl_calls := triggerCrawl_calls st @ [payload]\<rparr>"

definition urlsToCrawl :: "admin_state \<Rightarrow> js_string list" where
  "urlsToCrawl st = filter (\<lambda>url. length url > 0) (map (\<lambda>url. trim url) (split_js LF (urls st)))"

definition admin_handleSubmit :: "admin_state \<Rightarrow> admin_state" where
  "admin_handleSubmit st =
     (if length (urlsToCrawl st) = 0
      then st\<lparr>errorMessage := Some msg_at_least_one_url\<rparr>
      else admin_mutate (CrawlPayload (urlsToCrawl st)) st)"

section \<open>The generated API client\<close>

text \<open>
  What a rejected promise of the generated client carries. \<open>ResponseError\<close> (a subclass of
  \<open>Error\<close>) holds the HTTP status, the outcome of \<open>await err.response.text()\<close> (\<open>None\<close> when
  reading the body throws) and its \<open>message\<close>; any other \<open>Error\<close> holds its \<open>message\<close>;
  \<open>NotAnError\<close> is a thrown value that is not an instance of \<open>Error\<close>.
\<close>

datatype thrown =
    ResponseError nat "js_string option" js_string
  | Error js_string
  | NotAnError

record User =
  userId :: int
  username :: js_string

record AuthToken =
  token :: js_string
  tokenType :: js_string

record LoginPayload =
  payload_username :: js_string
  payload_password :: js_string

type_synonym RegisterPayload = LoginPayload

text \<open>
  The collaborator behind \<open>authApi\<close>: the outcome of each call, \<open>Inl\<close> when the promise
  rejects. \<open>getMe\<close> sends the bearer token that \<open>apiConfig.accessToken\<close> reads from the storage
  when the call is made, so its outcome is a function of that token.
\<close>

record AuthApi =
  api_login :: "LoginPayload \<Rightarrow> thrown + AuthToken"
  api_getMe :: "js_string \<Rightarrow> thrown + User"
  api_register :: "RegisterPayload \<Rightarrow> thrown + User"

section \<open>AuthProvider\<close>

definition JWT_STORAGE_KEY :: js_string where
  "JWT_STORAGE_KEY = js ''jwt_token''"

definition msg_invalid_credentials :: js_string where
  \<comment> \<open>The Japanese sentence "The user name or the password is not correct".\<close>
  "msg_invalid_credentials =
     [0x30E6, 0x30FC, 0x30B6, 0x30FC, 0x540D, 0x307E, 0x305F, 0x306F, 0x30D1, 0x30B9,
      0x30EF, 0x30FC, 0x30C9, 0x304C, 0x6B63, 0x3057, 0x304F, 0x3042, 0x308A, 0x307E,
      0x305B, 0x3093]"

definition dummy_username :: js_string where
  \<comment> \<open>The Japanese words "logged-in user", the name of the placeholder user.\<close>
  "dummy_username = [0x30ED, 0x30B0, 0x30A4, 0x30F3, 0x30E6, 0x30FC, 0x30B6, 0x30FC]"

text \<open>
  The provider's three \<open>useState\<close> cells and the browser's \<open>localStorage\<close>. Setters called
  in one synchronous stretch of code take effect together, in one render, so such a stretch
  is one update of the record. The repository holds two versions of \<open>AuthProvider.tsx\<close>;
  they share this state, \<open>logout\<close> and \<open>register\<close>.
\<close>

record auth_state =
  localStorage :: "js_string \<rightharpoonup> js_string"
  isAuthenticated :: bool
  user :: "User option"
  isLoading :: bool

datatype variant = GetMeLookup | DummyUser

definition initial_state :: "(js_string \<rightharpoonup> js_string) \<Rightarrow> auth_state" where
  "initial_state storage =
     \<lparr>localStorage = storage, isAuthenticated = False, user = None, isLoading = True\<rparr>"

definition getItem :: "auth_state \<Rightarrow> js_string option" where
  "getItem st = localStorage st JWT_STORAGE_KEY"

definition hasToken :: "auth_state \<Rightarrow> bool" where
  \<comment> \<open>The test \<open>if (token)\<close> on \<open>localStorage.getItem(JWT_STORAGE_KEY)\<close>: \<open>null\<close> and the
      empty string are falsy.\<close>
  "hasToken st = (case getItem st of None \<Rightarrow> False | Some t \<Rightarrow> t \<noteq> [])"

definition accessToken :: "auth_state \<Rightarrow> js_string" where
  \<comment> \<open>\<open>apiConfig.accessToken\<close>: \<open>localStorage.getItem(JWT_STORAGE_KEY) || ''\<close>.\<close>
  "accessToken st = (case getItem st of None \<Rightarrow> [] | Some t \<Rightarrow> if t \<noteq> [] then t else [])"

definition is_unauthorized :: "thrown \<Rightarrow> bool" where
  \<comment> \<open>\<open>error instanceof ResponseError && error.response.status === 401\<close>\<close>
  "is_unauthorized error = (case error of ResponseError s _ _ \<Rightarrow> s = 401 | _ \<Rightarrow> False)"

definition logout :: "auth_state \<Rightarrow> auth_state" where
  "logout st =
     st\<lparr>localStorage := (localStorage st)(JWT_STORAGE_KEY := None),
        isAuthenticated := False, user := None\<rparr>"

definition login_rethrow :: "thrown \<Rightarrow> thrown" where
  \<comment> \<open>The end of both \<open>catch\<close> blocks of \<open>login\<close>: a 401 becomes a new plain \<open>Error\<close>,
      anything else is thrown again as it is.\<close>
  "login_rethrow error =
     (if is_unauthorized error then Error msg_invalid_credentials else error)"

definition login_lookup ::
  "AuthApi \<Rightarrow> LoginPayload \<Rightarrow> auth_state \<Rightarrow> (thrown + unit) \<times> auth_state" where
  \<comment> \<open>\<open>login\<close> of the version that calls \<open>getMe\<close>; the \<open>catch\<close> block starts with \<open>logout()\<close>.\<close>
  "login_lookup api payload st =
     (case api_login api payload of
        Inl error \<Rightarrow> (Inl (login_rethrow error), logout st)
      | Inr tokenData \<Rightarrow>
          (let st1 = st\<lparr>localStorage := (localStorage st)(JWT_STORAGE_KEY \<mapsto> token tokenData)\<rparr>
           in case api_getMe api (accessToken st1) of
                Inl error \<Rightarrow> (Inl (login_rethrow error), logout st1)
              | Inr userInfo \<Rightarrow> (Inr (), st1\<lparr>isAuthenticated := True, user := Some userInfo\<rparr>)))"

definition saveAuthData :: "AuthToken \<Rightarrow> User \<Rightarrow> auth_state \<Rightarrow> auth_state" where
  "saveAuthData tok userInfo st =
     st\<lparr>localStorage := (localStorage st)(JWT_STORAGE_KEY \<mapsto> token tok),
        isAuthenticated := True, user := Some userInfo\<rparr>"

definition login_dummy ::
  "AuthApi \<Rightarrow> LoginPayload \<Rightarrow> auth_state \<Rightarrow> (thrown + unit) \<times> auth_state" where
  \<comment> \<open>\<open>login\<close> of the version with the placeholder user; its \<open>catch\<close> block only rethrows.\<close>
  "login_dummy api payload st =
     (case api_login api payload of
        Inl error \<Rightarrow> (Inl (login_rethrow error), st)
      | Inr tokenData \<Rightarrow>
          (let dummyUser = \<lparr>userId = 1, username = payload_username payload\<rparr>
           in (Inr (), saveAuthData \<lparr>token = token tokenData, tokenType = tokenType tokenData\<rparr>
                         dummyUser st)))"

definition login ::
  "variant \<Rightarrow> AuthApi \<Rightarrow> LoginPayload \<Rightarrow> auth_state \<Rightarrow> (thrown + unit) \<times> auth_state" where
  "login v = (case v of GetMeLookup \<Rightarrow> login_lookup | DummyUser \<Rightarrow> login_dummy)"

definition register ::
  "AuthApi \<Rightarrow> RegisterPayload \<Rightarrow> auth_state \<Rightarrow> (thrown + User) \<times> auth_state" where
  \<comment> \<open>The same in both versions: the collaborator's outcome, and no state is touched.\<close>
  "register api payload st = (api_register api payload, st)"

definition checkAuthStatus :: "AuthApi \<Rightarrow> auth_state \<Rightarrow> auth_state" where
  \<comment> \<open>The mount effect of the version that calls \<open>getMe\<close>.\<close>
  "checkAuthStatus api st =
     (let st1 = (if hasToken st
                 then (case api_getMe api (accessToken st) of
                         Inr userInfo \<Rightarrow> st\<lparr>isAuthenticated := True, user := Some userInfo\<rparr>
                       | Inl error \<Rightarrow> logout st)
                 else st)
      in st1\<lparr>isLoading := False\<rparr>)"

definition startup_dummy :: "auth_state \<Rightarrow> auth_state" where
  \<comment> \<open>The mount effect of the version with the placeholder user: no call is made.\<close>
  "startup_dummy st =
     (let st1 = (if hasToken st
                 then st\<lparr>isAuthenticated := True,
                         user := Some \<lparr>userId = 1, username = dummy_username\<rparr>\<rparr>
                 else st)
      in st1\<lparr>isLoading := False\<rparr>)"

definition startup :: "variant \<Rightarrow> AuthApi \<Rightarrow> auth_state \<Rightarrow> auth_state" where
  "startup v api = (case v of GetMeLookup \<Rightarrow> checkAuthStatus api | DummyUser \<Rightarrow> startup_dummy)"

text \<open>
  The operations the context hands to the pages, each with the collaborator as it answers
  at that call. An \<open>async\<close> operation is taken from its call to the settling of its promise.
  A session is the mount effect, which runs once because its dependency \<open>logout\<close> never
  changes, followed by any sequence of operations.
\<close>

datatype auth_event =
    Login AuthApi LoginPayload
  | Register AuthApi RegisterPayload
  | Logout

fun auth_step :: "variant \<Rightarrow> auth_state \<Rightarrow> auth_event \<Rightarrow> auth_state" where
  "auth_step v st (Login api payload) = snd (login v api payload st)"
| "auth_step v st (Register api payload) = snd (register api payload st)"
| "auth_step v st Logout = logout st"

definition run ::
  "variant \<Rightarrow> AuthApi \<Rightarrow> (js_string \<rightharpoonup> js_string) \<Rightarrow> auth_event list \<Rightarrow> auth_state" where
  "run v api storage evs = foldl (auth_step v) (startup v api (initial_state storage)) evs"

section \<open>RegisterPage\<close>

definition msg_registered_logging_in :: js_string where
  \<comment> \<open>The Japanese sentences "Registration succeeded. Logging in automatically..."\<close>
  "msg_registered_logging_in =
     [0x767B, 0x9332, 0x304C, 0x6210, 0x529F, 0x3057, 0x307E, 0x3057, 0x305F, 0x3002,
      0x81EA, 0x52D5, 0x7684, 0x306B, 0x30ED, 0x30B0, 0x30A4, 0x30F3, 0x3057, 0x3066,
      0x3044, 0x307E, 0x3059, 0x002E, 0x002E, 0x002E]"

definition msg_username_taken :: js_string where
  \<comment> \<open>The Japanese sentence "This user name is already in use."\<close>
  "msg_username_taken =
     [0x3053, 0x306E, 0x30E6, 0x30FC, 0x30B6, 0x30FC, 0x540D, 0x306F, 0x65E2, 0x306B,
      0x4F7F, 0x7528, 0x3055, 0x308C, 0x3066, 0x3044, 0x307E, 0x3059, 0x3002]"

definition msg_invalid_input :: js_string where
  \<comment> \<open>The Japanese sentence "The input is not correct."\<close>
  "msg_invalid_input =
     [0x5165, 0x529B, 0x5185, 0x5BB9, 0x304C, 0x6B63, 0x3057, 0x304F, 0x3042, 0x308A,
      0x307E, 0x305B, 0x3093, 0x3002]"

definition msg_registered_but_login_failed :: js_string where
  \<comment> \<open>The Japanese sentences "Registration succeeded, but the automatic login failed.
      Please log in by hand from the login page."\<close>
  "msg_registered_but_login_failed =
     [0x767B, 0x9332, 0x306B, 0x306F, 0x6210, 0x529F, 0x3057, 0x307E, 0x3057, 0x305F,
      0x304C, 0x3001, 0x81EA, 0x52D5, 0x30ED, 0x30B0, 0x30A4, 0x30F3, 0x306B, 0x5931,
      0x6557, 0x3057, 0x307E, 0x3057, 0x305F, 0x3002, 0x30ED, 0x30B0, 0x30A4, 0x30F3,
      0x30DA, 0x30FC, 0x30B8, 0x304B, 0x3089, 0x624B, 0x52D5, 0x3067, 0x30ED, 0x30B0,
      0x30A4, 0x30F3, 0x3057, 0x3066, 0x304F, 0x3060, 0x3055, 0x3044, 0x3002]"

definition msg_unknown_register_error :: js_string where
  \<comment> \<open>The Japanese sentence "An unknown error occurred during registration."\<close>
  "msg_unknown_register_error =
     [0x767B, 0x9332, 0x4E2D, 0x306B, 0x4E0D, 0x660E, 0x306A, 0x30A8, 0x30E9, 0x30FC,
      0x304C, 0x767A, 0x751F, 0x3057, 0x307E, 0x3057, 0x305F, 0x3002]"

function decimal :: "nat \<Rightarrow> js_string" where
  \<comment> \<open>A status code inside a template literal.\<close>
  "decimal n =
     (if n < 10 then [of_nat (48 + n)]
      else decimal (n div 10) @ [of_nat (48 + n mod 10)])"
  by pat_completeness auto
termination
  by (relation "measure (\<lambda>n. n)") auto

declare decimal.simps [simp del]

definition msg_error_code :: "nat \<Rightarrow> js_string" where
  \<comment> \<open>The template "An error occurred (code: $\{status\})." in Japanese.\<close>
  "msg_error_code status =
     [0x30A8, 0x30E9, 0x30FC, 0x304C, 0x767A, 0x751F, 0x3057, 0x307E, 0x3057, 0x305F,
      0x0020, 0x0028, 0x30B3, 0x30FC, 0x30C9, 0x003A, 0x0020] @ decimal status @ [0x0029, 0x3002]"

text \<open>
  The page's \<open>useState\<close> cells; \<open>navigatedTo\<close> records the call \<open>navigate('/', ...)\<close>.
\<close>

record register_page =
  form_username :: js_string
  form_password :: js_string
  page_error :: "js_string option"
  successMessage :: "js_string option"
  isSubmitting :: bool
  navigatedTo :: "js_string option"

definition register_catch :: "thrown \<Rightarrow> register_page \<Rightarrow> register_page" where
  \<comment> \<open>The \<open>catch\<close> block of \<open>handleSubmit\<close>.\<close>
  "register_catch err page =
     (let shown =
        (case err of
           ResponseError status body message \<Rightarrow>
             (if status = 409 then msg_username_taken
              else if status = 400 then
                (case body of
                   Some serverMessage \<Rightarrow>
                     if serverMessage \<noteq> [] then serverMessage else msg_invalid_input
                 | None \<Rightarrow> msg_invalid_input)
              else if status = 401 then msg_registered_but_login_failed
              else if message \<noteq> [] then message else msg_error_code status)
         | Error message \<Rightarrow> message
         | NotAnError \<Rightarrow> msg_unknown_register_error)
      in page\<lparr>page_error := Some shown, isSubmitting := False\<rparr>)"

definition handleSubmit ::
  "variant \<Rightarrow> AuthApi \<Rightarrow> register_page \<times> auth_state \<Rightarrow> register_page \<times> auth_state" where
  \<comment> \<open>\<open>RegisterPage.handleSubmit\<close>, with \<open>register\<close> and \<open>login\<close> of the given version of
      the provider.\<close>
  "handleSubmit v api ps =
     (let page = fst ps; st = snd ps;
          payload = \<lparr>payload_username = form_username page,
                      payload_password = form_password page\<rparr>;
          page1 = page\<lparr>page_error := None, successMessage := None, isSubmitting := True\<rparr>
      in case register api payload st of
           (Inl err, st1) \<Rightarrow> (register_catch err page1, st1)
         | (Inr registeredUser, st1) \<Rightarrow>
             (let page2 = page1\<lparr>successMessage := Some msg_registered_logging_in\<rparr>
              in case login v api payload st1 of
                   (Inl err, st2) \<Rightarrow> (register_catch err page2, st2)
                 | (Inr u, st2) \<Rightarrow> (page2\<lparr>navigatedTo := Some (js ''/'')\<rparr>, st2)))"

section \<open>HomePage\<close>

record Paper =
  paper_id :: int
  conferenceName :: js_string
  year :: int
  title :: js_string
  url :: "js_string option"
  authors :: "js_string option"
  abstractText :: "js_string option"

datatype PaperStatus = Read | Liked

record variables =
  paperId :: int
  status :: PaperStatus

datatype query_key = nextPaper | likedPapers

datatype papers_call = GetNextPaper | SetPaperStatus int PaperStatus

datatype mutation_status = Idle | Pending | Success | Failed

text \<open>
  What the component reads and writes: the \<open>nextPaper\<close> query (\<open>paper\<close> is its \<open>data\<close>, which
  the query library keeps when a later fetch fails; \<open>isError\<close> is \<open>query_error \<noteq> None\<close>), the
  local \<open>isCurrentLiked\<close>, the status of the mutation (\<open>isMutating\<close> is \<open>Pending\<close>), and two logs:
  the keys passed to \<open>queryClient.invalidateQueries\<close> and the calls made to \<open>papersApi\<close>.
\<close>

record home_state =
  paper :: "Paper option"
  query_isLoading :: bool
  query_error :: "thrown option"
  isCurrentLiked :: bool
  mutation :: mutation_status
  invalidated :: "query_key list"
  papers_calls :: "papers_call list"

definition isError :: "home_state \<Rightarrow> bool" where
  "isError st = (query_error st \<noteq> None)"

definition isMutating :: "home_state \<Rightarrow> bool" where
  "isMutating st = (mutation st = Pending)"

definition is_not_found :: "thrown \<Rightarrow> bool" where
  \<comment> \<open>\<open>error instanceof ResponseError && error.response.status === 404\<close>\<close>
  "is_not_found error = (case error of ResponseError s _ _ \<Rightarrow> s = 404 | _ \<Rightarrow> False)"

definition retry :: "nat \<Rightarrow> thrown \<Rightarrow> bool" where
  "retry failureCount error = (if is_not_found error then False else failureCount < 3)"

text \<open>
  The query library's fetch: it calls \<open>queryFn\<close>, and after a failure it asks \<open>retry\<close> with
  the number of failures so far, calling again when the answer is true. The collaborator
  is given by its response to each attempt; the result is the outcome that settles the
  query and the number of attempts that failed before it.
\<close>

function fetch_attempts ::
  "(nat \<Rightarrow> thrown + Paper) \<Rightarrow> nat \<Rightarrow> (thrown + Paper) \<times> nat" where
  "fetch_attempts getNextPaper failureCount =
     (case getNextPaper failureCount of
        Inr p \<Rightarrow> (Inr p, failureCount)
      | Inl error \<Rightarrow>
          if retry failureCount error
          then fetch_attempts getNextPaper (Suc failureCount)
          else (Inl error, failureCount))"
  by pat_completeness auto
termination
  by (relation "measure (\<lambda>(getNextPaper, failureCount). 3 - failureCount)")
     (auto simp: retry_def split: if_splits)

declare fetch_attempts.simps [simp del]

definition query_success :: "Paper \<Rightarrow> home_state \<Rightarrow> home_state" where
  \<comment> \<open>New data arrives; the effect on \<open>[paper?.id]\<close> resets the star when the id differs
      from the one rendered before.\<close>
  "query_success p st =
     st\<lparr>paper := Some p, query_isLoading := False, query_error := None,
        isCurrentLiked :=
          (if map_option paper_id (paper st) \<noteq> Some (paper_id p) then False
           else isCurrentLiked st)\<rparr>"

definition query_failure :: "thrown \<Rightarrow> home_state \<Rightarrow> home_state" where
  "query_failure error st = st\<lparr>query_isLoading := False, query_error := Some error\<rparr>"

definition fetchNext :: "(nat \<Rightarrow> thrown + Paper) \<Rightarrow> home_state \<Rightarrow> home_state" where
  "fetchNext getNextPaper st =
     (case fetch_attempts getNextPaper 0 of
        (outcome, failureCount) \<Rightarrow>
          (let st1 = st\<lparr>papers_calls :=
                          papers_calls st @ replicate (Suc failureCount) GetNextPaper\<rparr>
           in case outcome of
                Inr p \<Rightarrow> query_success p st1
              | Inl error \<Rightarrow> query_failure error st1))"

datatype view =
    LoadingView
  | AllDoneView
  | ErrorView js_string
  | NoPaperView
  | PaperCard (shown: Paper) (star_disabled: bool) (star_isLiked: bool) (read_disabled: bool)

definition render :: "home_state \<Rightarrow> view" where
  \<comment> \<open>The branches of the component's body, in the source's order.\<close>
  "render st =
     (if query_isLoading st then LoadingView
      else if (case query_error st of Some error \<Rightarrow> is_not_found error | None \<Rightarrow> False)
      then AllDoneView
      else if isError st then
        ErrorView (case query_error st of
                     Some (ResponseError s t message) \<Rightarrow> message
                   | Some (Error message) \<Rightarrow> message
                   | _ \<Rightarrow> [])
      else (case paper st of
              None \<Rightarrow> NoPaperView
            | Some p \<Rightarrow>
                PaperCard p (isMutating st \<or> isCurrentLiked st) (isCurrentLiked st)
                  (isMutating st)))"

definition mutationFn :: "variables \<Rightarrow> home_state \<Rightarrow> home_state" where
  "mutationFn vars st =
     st\<lparr>papers_calls := papers_calls st @ [SetPaperStatus (paperId vars) (status vars)]\<rparr>"

definition mutate :: "variables \<Rightarrow> home_state \<Rightarrow> home_state" where
  \<comment> \<open>The library's \<open>mutate\<close>: the mutation becomes pending and \<open>mutationFn\<close> is called.\<close>
  "mutate vars st = mutationFn vars (st\<lparr>mutation := Pending\<rparr>)"

definition invalidateQueries :: "query_key \<Rightarrow> home_state \<Rightarrow> home_state" where
  "invalidateQueries key st = st\<lparr>invalidated := invalidated st @ [key]\<rparr>"

definition onSuccess :: "variables \<Rightarrow> home_state \<Rightarrow> home_state" where
  "onSuccess vars st =
     (let st1 = (if status vars = Read then invalidateQueries nextPaper st else st)
      in if status vars = Liked then invalidateQueries likedPapers st1 else st1)"

definition onError :: "thrown \<Rightarrow> variables \<Rightarrow> home_state \<Rightarrow> home_state" where
  "onError err vars st = (if status vars = Liked then st\<lparr>isCurrentLiked := False\<rparr> else st)"

definition mutation_settled :: "thrown + unit \<Rightarrow> variables \<Rightarrow> home_state \<Rightarrow> home_state" where
  \<comment> \<open>The library settles the mutation: the callback runs and the status leaves \<open>Pending\<close>.\<close>
  "mutation_settled outcome vars st =
     (case outcome of
        Inr u \<Rightarrow> (onSuccess vars st)\<lparr>mutation := Success\<rparr>
      | Inl err \<Rightarrow> (onError err vars st)\<lparr>mutation := Failed\<rparr>)"

definition handleRate :: "PaperStatus \<Rightarrow> home_state \<Rightarrow> home_state" where
  "handleRate s st =
     (case paper st of
        Some p \<Rightarrow>
          (let st1 = mutate \<lparr>paperId = paper_id p, status = s\<rparr> st
           in if s = Liked then st1\<lparr>isCurrentLiked := True\<rparr> else st1)
      | None \<Rightarrow> st)"

text \<open>What can happen to a mounted page: a click, or the settling of a call.\<close>

datatype home_event =
    Rate PaperStatus
  | MutationSettled "thrown + unit" variables
  | Fetched "nat \<Rightarrow> thrown + Paper"

fun home_step :: "home_state \<Rightarrow> home_event \<Rightarrow> home_state" where
  "home_step st (Rate s) = handleRate s st"
| "home_step st (MutationSettled outcome vars) = mutation_settled outcome vars st"
| "home_step st (Fetched getNextPaper) = fetchNext getNextPaper st"

definition mounted :: home_state where
  \<comment> \<open>The first render: the query is loading and nothing was fetched or rated yet.\<close>
  "mounted =
     \<lparr>paper = None, query_isLoading = True, query_error = None, isCurrentLiked = False,
      mutation = Idle, invalidated = [], papers_calls = []\<rparr>"

section \<open>Example inputs and session invariants\<close>

definition bob :: LoginPayload where
  "bob = \<lparr>payload_username = js ''bob'', payload_password = js ''x''\<rparr>"

definition alice_wrong :: LoginPayload where
  "alice_wrong = \<lparr>payload_username = js ''alice'', payload_password = js ''wrong''\<rparr>"

definition unauthorized :: thrown where
  "unauthorized = ResponseError 401 None (js ''Response returned an error code'')"

definition example_api :: AuthApi where
  \<comment> \<open>A server that knows one user, bob with id 2, and hands out the token \<open>t2\<close> for him.\<close>
  "example_api =
     \<lparr>api_login = (\<lambda>p. if p = bob then Inr \<lparr>token = js ''t2'', tokenType = js ''Bearer''\<rparr>
                         else Inl unauthorized),
      api_getMe = (\<lambda>t. if t = js ''t2'' then Inr \<lparr>userId = 2, username = js ''bob''\<rparr>
                         else Inl unauthorized),
      api_register = (\<lambda>p. Inl (ResponseError 409 None []))\<rparr>"

definition register_only_api :: AuthApi where
  \<comment> \<open>A server that accepts every registration and answers 401 to every login.\<close>
  "register_only_api =
     \<lparr>api_login = (\<lambda>p. Inl unauthorized),
      api_getMe = (\<lambda>t. Inl unauthorized),
      api_register = (\<lambda>p. Inr \<lparr>userId = 2, username = payload_username p\<rparr>)\<rparr>"

definition anonymous :: auth_state where
  \<comment> \<open>The session after a start with an empty storage.\<close>
  "anonymous = \<lparr>localStorage = Map.empty, isAuthenticated = False, user = None, isLoading = False\<rparr>"

definition accepting_api :: AuthApi where
  \<comment> \<open>A server that accepts bob's password with the token \<open>t9\<close> and then refuses that token.\<close>
  "accepting_api =
     \<lparr>api_login = (\<lambda>p. if p = bob then Inr \<lparr>token = js ''t9'', tokenType = js ''Bearer''\<rparr>
                         else Inl unauthorized),
      api_getMe = (\<lambda>t. Inl unauthorized),
      api_register = (\<lambda>p. Inl (ResponseError 409 None []))\<rparr>"

definition bob_session :: auth_state where
  \<comment> \<open>A session in which bob is logged in with the token \<open>t2\<close>.\<close>
  "bob_session =
     \<lparr>localStorage = [JWT_STORAGE_KEY \<mapsto> js ''t2''], isAuthenticated = True,
      user = Some \<lparr>userId = 2, username = js ''bob''\<rparr>, isLoading = False\<rparr>"

text \<open>The two facts that every state of a session satisfies.\<close>

definition user_iff_authenticated :: "auth_state \<Rightarrow> bool" where
  "user_iff_authenticated st = ((user st \<noteq> None) = isAuthenticated st)"

definition token_only_if_authenticated :: "auth_state \<Rightarrow> bool" where
  "token_only_if_authenticated st = (if hasToken st then isAuthenticated st else True)"

text \<open>Example inputs for the pages.\<close>

definition bob_form :: register_page where
  "bob_form =
     \<lparr>form_username = js ''bob'', form_password = js ''x'', page_error = None,
      successMessage = None, isSubmitting = False, navigatedTo = None\<rparr>"

definition paper7 :: Paper where
  "paper7 =
     \<lparr>paper_id = 7, conferenceName = js ''USENIX Security'', year = 2025,
      title = js ''A paper'', url = None, authors = None, abstractText = None\<rparr>"

definition showing7 :: home_state where
  \<comment> \<open>The page after its first fetch returned \<open>paper7\<close>.\<close>
  "showing7 =
     \<lparr>paper = Some paper7, query_isLoading = False, query_error = None, isCurrentLiked = False,
      mutation = Idle, invalidated = [], papers_calls = [GetNextPaper]\<rparr>"

definition liked7 :: variables where
  "liked7 = \<lparr>paperId = 7, status = Liked\<rparr>"

definition not_found :: thrown where
  "not_found = ResponseError 404 None (js ''Response returned an error code'')"

definition server_error_then_not_found :: "nat \<Rightarrow> thrown + Paper" where
  \<comment> \<open>A collaborator that answers 500 to the first attempt and 404 to the later ones.\<close>
  "server_error_then_not_found n =
     (if n = 0 then Inl (ResponseError 500 None (js ''Response returned an error code''))
      else Inl not_found)"

section \<open>Properties of the crawl form\<close>

lemma split_js_not_Nil: "split_js sep s \<noteq> []"
  by (induction s) (auto split: list.splits)

lemma join_js_Cons: "ls \<noteq> [] \<Longrightarrow> join_js sep (l # ls) = l @ sep # join_js sep ls"
  by (cases ls) simp_all

lemma join_split_js: "join_js sep (split_js sep s) = s"
proof (induction s)
  case Nil
  show ?case by simp
next
  case (Cons c cs)
  show ?case
  proof (cases "c = sep")
    case True
    with Cons show ?thesis
      by (simp add: join_js_Cons split_js_not_Nil)
  next
    case False
    obtain l ls where sp: "split_js sep cs = l # ls"
      using split_js_not_Nil [of sep cs] by (cases "split_js sep cs") auto
    have "join_js sep ((c # l) # ls) = c # join_js sep (l # ls)"
      by (cases ls) simp_all
    with False sp Cons show ?thesis by simp
  qed
qed

lemma split_js_no_sep: "l \<in> set (split_js sep s) \<Longrightarrow> sep \<notin> set l"
proof (induction s arbitrary: l)
  case Nil
  then show ?case by simp
next
  case (Cons c cs)
  then show ?case
    by (cases "split_js sep cs") (auto split: if_splits)
qed

lemma trim_decomposition:
  "\<exists>a b. s = a @ trim s @ b \<and> list_all is_js_whitespace a \<and> list_all is_js_whitespace b"
proof -
  let ?a = "takeWhile is_js_whitespace s"
  let ?m = "dropWhile is_js_whitespace s"
  let ?b = "rev (takeWhile is_js_whitespace (rev ?m))"
  have m: "?m = trim s @ ?b"
  proof -
    have "rev ?m = takeWhile is_js_whitespace (rev ?m) @ dropWhile is_js_whitespace (rev ?m)"
      by simp
    then have "rev (rev ?m) = rev (dropWhile is_js_whitespace (rev ?m)) @ ?b"
      by (metis rev_append)
    then show ?thesis by (simp add: trim_def)
  qed
  have "s = ?a @ ?m" by simp
  with m have "s = ?a @ trim s @ ?b" by simp
  moreover have "list_all is_js_whitespace ?a"
    by (simp add: list_all_iff) (meson set_takeWhileD)
  moreover have "list_all is_js_whitespace ?b"
    by (simp add: list_all_iff) (meson set_takeWhileD)
  ultimately show ?thesis by blast
qed

lemma trim_no_leading_whitespace: "trim s \<noteq> [] \<Longrightarrow> \<not> is_js_whitespace (hd (trim s))"
proof -
  assume ne: "trim s \<noteq> []"
  let ?m = "dropWhile is_js_whitespace s"
  have mne: "?m \<noteq> []"
  proof
    assume e: "?m = []"
    have "trim s = rev (dropWhile is_js_whitespace (rev ?m))" by (simp only: trim_def)
    also have "\<dots> = []" by (simp only: e rev.simps dropWhile.simps)
    finally show False using ne by simp
  qed
  then have hm: "\<not> is_js_whitespace (hd ?m)" by (simp add: hd_dropWhile)
  have "rev (dropWhile is_js_whitespace (rev ?m)) \<noteq> []" using ne by (simp add: trim_def)
  then obtain x xs where d: "dropWhile is_js_whitespace (rev ?m) = x # xs"
    by (cases "dropWhile is_js_whitespace (rev ?m)") auto
  have "rev ?m = takeWhile is_js_whitespace (rev ?m) @ x # xs"
    using d by (metis takeWhile_dropWhile_id)
  then have "?m = rev (x # xs) @ rev (takeWhile is_js_whitespace (rev ?m))"
    by (metis rev_append rev_rev_ident)
  then have "hd ?m = hd (rev (x # xs))" by (metis Nil_is_rev_conv hd_append2 list.distinct(1))
  with hm d show ?thesis by (simp add: trim_def)
qed

lemma trim_no_trailing_whitespace: "trim s \<noteq> [] \<Longrightarrow> \<not> is_js_whitespace (last (trim s))"
proof -
  assume ne: "trim s \<noteq> []"
  let ?r = "rev (dropWhile is_js_whitespace s)"
  have "dropWhile is_js_whitespace ?r \<noteq> []" using ne by (simp add: trim_def)
  then have "\<not> is_js_whitespace (hd (dropWhile is_js_whitespace ?r))"
    by (simp add: hd_dropWhile)
  moreover have "last (trim s) = hd (dropWhile is_js_whitespace ?r)"
    using ne by (simp add: trim_def last_rev)
  ultimately show ?thesis by simp
qed
lemma urlsToCrawl_eq:
  "urlsToCrawl st = filter (\<lambda>l. l \<noteq> []) (map trim (split_js LF (urls st)))"
  by (simp add: urlsToCrawl_def)

lemma urlsToCrawl_trimmed:
  "list_all (\<lambda>l. l \<noteq> [] \<and> \<not> is_js_whitespace (hd l) \<and> \<not> is_js_whitespace (last l))
     (urlsToCrawl st)"
  by (auto simp: urlsToCrawl_eq list_all_iff trim_no_leading_whitespace
        trim_no_trailing_whitespace)

lemma trim_all_whitespace: "list_all is_js_whitespace s \<Longrightarrow> trim s = []"
  by (auto simp: trim_def list_all_iff dest: set_dropWhileD)

lemma trim_unique:
  assumes s: "s = a @ t @ b"
    and a: "list_all is_js_whitespace a"
    and b: "list_all is_js_whitespace b"
    and t: "t = [] \<or> (\<not> is_js_whitespace (hd t) \<and> \<not> is_js_whitespace (last t))"
  shows "trim s = t"
proof (cases "t = []")
  case True
  with s a b have "list_all is_js_whitespace s" by simp
  with True show ?thesis by (simp add: trim_all_whitespace)
next
  case False
  with t have h: "\<not> is_js_whitespace (hd t)" and l: "\<not> is_js_whitespace (last t)" by simp_all
  obtain x xs where tx: "t = x # xs" using False by (cases t) auto
  have "dropWhile is_js_whitespace (a @ t @ b) = dropWhile is_js_whitespace (t @ b)"
    by (rule dropWhile_append2) (use a in \<open>simp add: list_all_iff\<close>)
  then have front: "dropWhile is_js_whitespace s = t @ b"
    using s h tx by simp
  obtain y ys where ty: "rev t = y # ys" using False by (cases "rev t") auto
  have "y = last t" using ty False by (metis last_rev list.sel(1) rev_rev_ident hd_rev)
  with l have ny: "\<not> is_js_whitespace y" by simp
  have "rev (t @ b) = rev b @ y # ys" using ty by simp
  moreover have "dropWhile is_js_whitespace (rev b @ y # ys) =
      dropWhile is_js_whitespace (y # ys)"
    by (rule dropWhile_append2) (use b in \<open>simp add: list_all_iff\<close>)
  ultimately have "dropWhile is_js_whitespace (rev (t @ b)) = y # ys"
    using ny by simp
  then have "trim s = rev (rev t)" using front ty by (simp add: trim_def)
  then show ?thesis by simp
qed

lemma trim_is_trimmed:
  "\<exists>a b. s = a @ trim s @ b \<and> list_all is_js_whitespace a \<and> list_all is_js_whitespace b
     \<and> (trim s = [] \<or> (\<not> is_js_whitespace (hd (trim s)) \<and> \<not> is_js_whitespace (last (trim s))))"
  using trim_decomposition [of s] trim_no_leading_whitespace [of s]
    trim_no_trailing_whitespace [of s] by blast

lemma split_js_no_sep_piece: "sep \<notin> set l \<Longrightarrow> split_js sep l = [l]"
  by (induction l) auto

lemma split_js_append_sep:
  "sep \<notin> set l \<Longrightarrow> split_js sep (l @ sep # rest) = l # split_js sep rest"
  by (induction l) auto

lemma split_join_js:
  "ps \<noteq> [] \<Longrightarrow> list_all (\<lambda>l. sep \<notin> set l) ps \<Longrightarrow> split_js sep (join_js sep ps) = ps"
proof (induction sep ps rule: join_js.induct)
  case (1 sep)
  then show ?case by simp
next
  case (2 sep l)
  then show ?case by (simp add: split_js_no_sep_piece)
next
  case (3 sep l m ls)
  then show ?case by (simp add: split_js_append_sep)
qed

text \<open>
  C10. Submitting the crawl form. The lines are the pieces of the text area between line
  feeds: joined by line feeds they give the text back, and none holds a line feed
  (\<open>split_join_js\<close>: only one non-empty list of pieces does both). Each line is trimmed: the
  trimmed line is the line without a run of white space at its start and one at its end,
  and is empty or starts and ends with a unit that is not white space (\<open>trim_unique\<close>: only
  one string is that). \<open>ls\<close> is the list of the trimmed lines that are not empty, in order.
  If \<open>ls\<close> is empty the page sets its error message and calls nothing; otherwise
  \<open>triggerCrawl\<close> is called once, with exactly \<open>ls\<close>, and the error message is cleared.
\<close>

theorem admin_handleSubmit_sends_trimmed_lines:
  "(let pieces = split_js LF (urls st);
        trimmed = map trim pieces;
        ls = filter (\<lambda>l. l \<noteq> []) trimmed in
      join_js LF pieces = urls st
    \<and> list_all (\<lambda>l. LF \<notin> set l) pieces
    \<and> list_all2
        (\<lambda>t s. \<exists>a b. s = a @ t @ b
           \<and> list_all is_js_whitespace a \<and> list_all is_js_whitespace b
           \<and> (t = [] \<or> (\<not> is_js_whitespace (hd t) \<and> \<not> is_js_whitespace (last t))))
        trimmed pieces
    \<and> list_all (\<lambda>l. l \<noteq> [] \<and> \<not> is_js_whitespace (hd l) \<and> \<not> is_js_whitespace (last l)) ls
    \<and> triggerCrawl_calls (admin_handleSubmit st) =
        triggerCrawl_calls st @ (if ls = [] then [] else [CrawlPayload ls])
    \<and> errorMessage (admin_handleSubmit st) =
        (if ls = [] then Some msg_at_least_one_url else None))"
proof -
  define pieces where "pieces = split_js LF (urls st)"
  define ls where "ls = filter (\<lambda>l. l \<noteq> []) (map trim pieces)"
  have ls: "urlsToCrawl st = ls" by (simp only: ls_def pieces_def urlsToCrawl_eq)
  have joined: "join_js LF pieces = urls st" by (simp only: pieces_def join_split_js)
  have no_lf: "list_all (\<lambda>l. LF \<notin> set l) pieces"
    by (simp add: pieces_def list_all_iff split_js_no_sep)
  have trimmed: "list_all2
        (\<lambda>t s. \<exists>a b. s = a @ t @ b
           \<and> list_all is_js_whitespace a \<and> list_all is_js_whitespace b
           \<and> (t = [] \<or> (\<not> is_js_whitespace (hd t) \<and> \<not> is_js_whitespace (last t))))
        (map trim pieces) pieces"
    unfolding list_all2_map1 list_all2_same using trim_is_trimmed by blast
  have ends: "list_all (\<lambda>l. l \<noteq> [] \<and> \<not> is_js_whitespace (hd l) \<and> \<not> is_js_whitespace (last l)) ls"
    using urlsToCrawl_trimmed [of st] by (simp only: ls)
  have calls: "triggerCrawl_calls (admin_handleSubmit st) =
      triggerCrawl_calls st @ (if ls = [] then [] else [CrawlPayload ls])"
    by (simp add: admin_handleSubmit_def ls admin_mutate_def)
  have msg: "errorMessage (admin_handleSubmit st) =
      (if ls = [] then Some msg_at_least_one_url else None)"
    by (simp add: admin_handleSubmit_def ls admin_mutate_def)
  show ?thesis
    unfolding Let_def using joined no_lf trimmed ends calls msg
    unfolding ls_def pieces_def by blast
qed

lemma admin_handleSubmit_example:
  "triggerCrawl_calls
     (admin_handleSubmit \<lparr>urls = js '' a b'' @ [LF, LF] @ js ''c '', admin_successMessage = None,
        errorMessage = None, admin_isPending = False, triggerCrawl_calls = []\<rparr>)
   = [CrawlPayload [js ''a b'', js ''c'']]"
  by (simp add: admin_handleSubmit_def urlsToCrawl_def admin_mutate_def js_def LF_def trim_def
        is_js_whitespace_def)

lemma admin_handleSubmit_blank_example:
  "admin_handleSubmit \<lparr>urls = js ''  '' @ [LF] @ js '' '', admin_successMessage = None,
        errorMessage = None, admin_isPending = False, triggerCrawl_calls = []\<rparr>
   = \<lparr>urls = js ''  '' @ [LF] @ js '' '', admin_successMessage = None,
        errorMessage = Some msg_at_least_one_url, admin_isPending = False, triggerCrawl_calls = []\<rparr>"
  by (simp add: admin_handleSubmit_def urlsToCrawl_def admin_mutate_def js_def LF_def trim_def
        is_js_whitespace_def)

section \<open>Properties of AuthProvider\<close>

subsection \<open>Invariants of a session\<close>

lemma accessToken_eq: "accessToken st = (case getItem st of None \<Rightarrow> [] | Some t \<Rightarrow> t)"
  by (simp add: accessToken_def split: option.splits)

lemma hasToken_logout: "\<not> hasToken (logout st)"
  by (simp add: hasToken_def getItem_def logout_def)

lemma getItem_logout: "getItem (logout st) = None"
  by (simp add: getItem_def logout_def)

lemma user_iff_authenticated_logout: "user_iff_authenticated (logout st)"
  by (simp add: user_iff_authenticated_def logout_def)

lemma user_iff_authenticated_login:
  "user_iff_authenticated st \<Longrightarrow> user_iff_authenticated (snd (login v api payload st))"
  by (cases v)
     (auto simp: login_def login_lookup_def login_dummy_def saveAuthData_def logout_def
        user_iff_authenticated_def Let_def split: sum.splits)

lemma user_iff_authenticated_step:
  "user_iff_authenticated st \<Longrightarrow> user_iff_authenticated (auth_step v st ev)"
  by (cases ev)
     (simp_all add: user_iff_authenticated_login user_iff_authenticated_logout register_def)

lemma user_iff_authenticated_startup:
  "user_iff_authenticated (startup v api (initial_state storage))"
  by (cases v)
     (auto simp: startup_def checkAuthStatus_def startup_dummy_def initial_state_def
        user_iff_authenticated_def logout_def Let_def split: sum.splits)

lemma user_iff_authenticated_foldl:
  "user_iff_authenticated st \<Longrightarrow> user_iff_authenticated (foldl (auth_step v) st evs)"
  by (induction evs arbitrary: st) (simp_all add: user_iff_authenticated_step)

lemma token_only_if_authenticated_logout: "token_only_if_authenticated (logout st)"
  by (simp add: token_only_if_authenticated_def hasToken_logout)

lemma hasToken_isAuthenticated [simp]: "hasToken (st\<lparr>isAuthenticated := b\<rparr>) = hasToken st"
  by (simp add: hasToken_def getItem_def)

lemma hasToken_user [simp]: "hasToken (st\<lparr>user := u\<rparr>) = hasToken st"
  by (simp add: hasToken_def getItem_def)

lemma token_only_if_authenticated_login:
  "token_only_if_authenticated st \<Longrightarrow>
   token_only_if_authenticated (snd (login v api payload st))"
  by (cases v)
     (auto simp: login_def login_lookup_def login_dummy_def saveAuthData_def hasToken_logout
        token_only_if_authenticated_def Let_def split: sum.splits)

lemma token_only_if_authenticated_step:
  "token_only_if_authenticated st \<Longrightarrow> token_only_if_authenticated (auth_step v st ev)"
  by (cases ev)
     (simp_all add: token_only_if_authenticated_login token_only_if_authenticated_logout
        register_def)

lemma hasToken_isLoading [simp]: "hasToken (st\<lparr>isLoading := b\<rparr>) = hasToken st"
  by (simp add: hasToken_def getItem_def)

lemma token_only_if_authenticated_startup:
  "token_only_if_authenticated (startup v api (initial_state storage))"
proof (cases v)
  case GetMeLookup
  then show ?thesis
    by (auto simp: startup_def checkAuthStatus_def token_only_if_authenticated_def Let_def
          hasToken_logout split: sum.splits)
next
  case DummyUser
  then show ?thesis
    by (auto simp: startup_def startup_dummy_def token_only_if_authenticated_def Let_def)
qed

lemma token_only_if_authenticated_foldl:
  "token_only_if_authenticated st \<Longrightarrow> token_only_if_authenticated (foldl (auth_step v) st evs)"
  by (induction evs arbitrary: st) (simp_all add: token_only_if_authenticated_step)

lemma token_only_if_authenticated_run: "token_only_if_authenticated (run v api storage evs)"
  unfolding run_def
  by (rule token_only_if_authenticated_foldl) (rule token_only_if_authenticated_startup)

lemma user_iff_authenticated_run: "user_iff_authenticated (run v api storage evs)"
  unfolding run_def
  by (rule user_iff_authenticated_foldl) (rule user_iff_authenticated_startup)

text \<open>
  C9. After the mount effect and any sequence of \<open>login\<close>, \<open>register\<close> and \<open>logout\<close> calls,
  whatever the collaborator answers to each, \<open>user\<close> is non-null exactly when
  \<open>isAuthenticated\<close> is true. This holds for both versions of the provider. (The source has
  no handler for unauthorized responses of other calls: the only places that react to a
  failed call are the \<open>catch\<close> blocks of \<open>login\<close> and of the mount effect.)
\<close>

theorem user_present_iff_authenticated:
  "(user (run v api storage evs) \<noteq> None) = isAuthenticated (run v api storage evs)"
  using user_iff_authenticated_run [of v api storage evs]
  by (simp add: user_iff_authenticated_def)

subsection \<open>A login that the collaborator refuses\<close>

lemma login_lookup_unauthorized:
  "api_login api payload = Inl (ResponseError 401 body message) \<Longrightarrow>
   login_lookup api payload st = (Inl (Error msg_invalid_credentials), logout st)"
  by (simp add: login_lookup_def login_rethrow_def is_unauthorized_def)

lemma login_lookup_getMe_unauthorized:
  "api_login api payload = Inr tokenData \<Longrightarrow>
   api_getMe api (token tokenData) = Inl (ResponseError 401 body message) \<Longrightarrow>
   login_lookup api payload st =
     (Inl (Error msg_invalid_credentials),
      logout (st\<lparr>localStorage := (localStorage st)(JWT_STORAGE_KEY \<mapsto> token tokenData)\<rparr>))"
  by (simp add: login_lookup_def login_rethrow_def is_unauthorized_def accessToken_eq
        getItem_def Let_def)

lemma login_dummy_unauthorized:
  "api_login api payload = Inl (ResponseError 401 body message) \<Longrightarrow>
   login_dummy api payload st = (Inl (Error msg_invalid_credentials), st)"
  by (simp add: login_dummy_def login_rethrow_def is_unauthorized_def)

lemma logout_after_setItem:
  "logout (st\<lparr>localStorage := (localStorage st)(JWT_STORAGE_KEY \<mapsto> t)\<rparr>) = logout st"
  by (simp add: logout_def)

lemma login_lookup_refused:
  assumes "api_login api payload = Inl (ResponseError 401 body message)
     \<or> (\<exists>tokenData. api_login api payload = Inr tokenData
           \<and> api_getMe api (token tokenData) = Inl (ResponseError 401 body message))"
  shows "login_lookup api payload st = (Inl (Error msg_invalid_credentials), logout st)"
  using assms
  by (auto simp: login_lookup_unauthorized login_lookup_getMe_unauthorized logout_after_setItem)

text \<open>
  C7. A login during which the collaborator answers 401. In the version with the lookup
  the 401 may answer the login call itself or, once the password was accepted and the new
  token stored, the call of \<open>getMe\<close> that follows; in either case and from any state, the
  promise rejects with the fixed invalid-credentials error and the \<open>logout()\<close> of the \<open>catch\<close>
  block leaves the session anonymous, \<open>user\<close> null and nothing stored under the key, the
  token of this call included. In the version with the placeholder user only the login
  call can fail and the \<open>catch\<close> block cleans nothing: the promise rejects with the same
  error and the state stays as it was, so after a call in an anonymous state of a session
  the session is anonymous, \<open>user\<close> is null and the storage holds no token (nothing that
  passes the source's test \<open>if (token)\<close>).
\<close>

theorem login_unauthorized_stays_anonymous:
  "((api_login api payload = Inl (ResponseError 401 body message)
      \<or> (\<exists>tokenData. api_login api payload = Inr tokenData
            \<and> api_getMe api (token tokenData) = Inl (ResponseError 401 body message)))
     \<longrightarrow> fst (login GetMeLookup api payload st) = Inl (Error msg_invalid_credentials)
       \<and> \<not> isAuthenticated (snd (login GetMeLookup api payload st))
       \<and> user (snd (login GetMeLookup api payload st)) = None
       \<and> getItem (snd (login GetMeLookup api payload st)) = None)
   \<and> (api_login api' payload' = Inl (ResponseError 401 body' message')
       \<and> st' = run DummyUser api0 storage evs \<and> \<not> isAuthenticated st'
     \<longrightarrow> fst (login DummyUser api' payload' st') = Inl (Error msg_invalid_credentials)
       \<and> snd (login DummyUser api' payload' st') = st'
       \<and> \<not> isAuthenticated (snd (login DummyUser api' payload' st'))
       \<and> user (snd (login DummyUser api' payload' st')) = None
       \<and> \<not> hasToken (snd (login DummyUser api' payload' st')))"
proof -
  have lookup:
    "(api_login api payload = Inl (ResponseError 401 body message)
      \<or> (\<exists>tokenData. api_login api payload = Inr tokenData
            \<and> api_getMe api (token tokenData) = Inl (ResponseError 401 body message)))
     \<longrightarrow> fst (login GetMeLookup api payload st) = Inl (Error msg_invalid_credentials)
       \<and> \<not> isAuthenticated (snd (login GetMeLookup api payload st))
       \<and> user (snd (login GetMeLookup api payload st)) = None
       \<and> getItem (snd (login GetMeLookup api payload st)) = None"
  proof (rule impI)
    assume "api_login api payload = Inl (ResponseError 401 body message)
      \<or> (\<exists>tokenData. api_login api payload = Inr tokenData
            \<and> api_getMe api (token tokenData) = Inl (ResponseError 401 body message))"
    then have "login GetMeLookup api payload st =
        (Inl (Error msg_invalid_credentials), logout st)"
      by (simp add: login_def login_lookup_refused)
    then show "fst (login GetMeLookup api payload st) = Inl (Error msg_invalid_credentials)
       \<and> \<not> isAuthenticated (snd (login GetMeLookup api payload st))
       \<and> user (snd (login GetMeLookup api payload st)) = None
       \<and> getItem (snd (login GetMeLookup api payload st)) = None"
      by (simp add: getItem_logout) (simp add: logout_def)
  qed
  have dummy:
    "api_login api' payload' = Inl (ResponseError 401 body' message')
       \<and> st' = run DummyUser api0 storage evs \<and> \<not> isAuthenticated st'
     \<longrightarrow> fst (login DummyUser api' payload' st') = Inl (Error msg_invalid_credentials)
       \<and> snd (login DummyUser api' payload' st') = st'
       \<and> \<not> isAuthenticated (snd (login DummyUser api' payload' st'))
       \<and> user (snd (login DummyUser api' payload' st')) = None
       \<and> \<not> hasToken (snd (login DummyUser api' payload' st'))"
  proof (rule impI, elim conjE)
    assume refused: "api_login api' payload' = Inl (ResponseError 401 body' message')"
      and reachable: "st' = run DummyUser api0 storage evs"
      and anon: "\<not> isAuthenticated st'"
    have same: "login DummyUser api' payload' st' = (Inl (Error msg_invalid_credentials), st')"
      using refused by (simp add: login_def login_dummy_unauthorized)
    have "user st' = None"
      using user_iff_authenticated_run [of DummyUser api0 storage evs] reachable anon
      by (simp add: user_iff_authenticated_def)
    moreover have "\<not> hasToken st'"
      using token_only_if_authenticated_run [of DummyUser api0 storage evs] reachable anon
      by (simp add: token_only_if_authenticated_def split: if_splits)
    ultimately show "fst (login DummyUser api' payload' st') = Inl (Error msg_invalid_credentials)
       \<and> snd (login DummyUser api' payload' st') = st'
       \<and> \<not> isAuthenticated (snd (login DummyUser api' payload' st'))
       \<and> user (snd (login DummyUser api' payload' st')) = None
       \<and> \<not> hasToken (snd (login DummyUser api' payload' st'))"
      using same anon by simp
  qed
  show ?thesis by (rule conjI [OF lookup dummy])
qed

theorem login_unauthorized_stays_anonymous_witness:
  "api_login accepting_api bob = Inr \<lparr>token = js ''t9'', tokenType = js ''Bearer''\<rparr>
   \<and> api_getMe accepting_api (js ''t9'') = Inl unauthorized
   \<and> getItem bob_session = Some (js ''t2'')
   \<and> fst (login GetMeLookup accepting_api bob bob_session) = Inl (Error msg_invalid_credentials)
   \<and> \<not> isAuthenticated (snd (login GetMeLookup accepting_api bob bob_session))
   \<and> user (snd (login GetMeLookup accepting_api bob bob_session)) = None
   \<and> getItem (snd (login GetMeLookup accepting_api bob bob_session)) = None
   \<and> api_login example_api alice_wrong = Inl unauthorized
   \<and> \<not> isAuthenticated (run DummyUser example_api Map.empty [Logout])
   \<and> fst (login DummyUser example_api alice_wrong (run DummyUser example_api Map.empty [Logout]))
       = Inl (Error msg_invalid_credentials)
   \<and> snd (login DummyUser example_api alice_wrong (run DummyUser example_api Map.empty [Logout]))
       = run DummyUser example_api Map.empty [Logout]
   \<and> user (snd (login DummyUser example_api alice_wrong (run DummyUser example_api Map.empty [Logout])))
       = None
   \<and> \<not> hasToken
         (snd (login DummyUser example_api alice_wrong (run DummyUser example_api Map.empty [Logout])))"
proof -
  have accepted: "api_login accepting_api bob = Inr \<lparr>token = js ''t9'', tokenType = js ''Bearer''\<rparr>"
    by (simp add: accepting_api_def)
  have token_refused: "api_getMe accepting_api (token \<lparr>token = js ''t9'', tokenType = js ''Bearer''\<rparr>)
      = Inl (ResponseError 401 None (js ''Response returned an error code''))"
    by (simp add: accepting_api_def unauthorized_def)
  have stored: "getItem bob_session = Some (js ''t2'')"
    by (simp add: bob_session_def getItem_def)
  have refused: "api_login example_api alice_wrong =
      Inl (ResponseError 401 None (js ''Response returned an error code''))"
    by (simp add: example_api_def alice_wrong_def bob_def unauthorized_def js_def)
  have anon: "\<not> isAuthenticated (run DummyUser example_api Map.empty [Logout])"
    by (simp add: run_def logout_def)
  show ?thesis
    using login_unauthorized_stays_anonymous
            [of accepting_api bob None "js ''Response returned an error code''" bob_session
                example_api alice_wrong None "js ''Response returned an error code''"
                "run DummyUser example_api Map.empty [Logout]" example_api Map.empty "[Logout]"]
          accepted token_refused stored refused anon
    by (auto simp: unauthorized_def)
qed

subsection \<open>A login that succeeds\<close>

lemma login_lookup_success:
  assumes "fst (login_lookup api payload st) = Inr u"
  shows "\<exists>tokenData userInfo.
           api_login api payload = Inr tokenData
         \<and> getItem (snd (login_lookup api payload st)) = Some (token tokenData)
         \<and> api_getMe api (accessToken (snd (login_lookup api payload st))) = Inr userInfo
         \<and> user (snd (login_lookup api payload st)) = Some userInfo
         \<and> isAuthenticated (snd (login_lookup api payload st))"
  using assms
  by (auto simp: login_lookup_def Let_def getItem_def accessToken_eq split: sum.splits)

lemma login_dummy_success:
  assumes "fst (login_dummy api payload st) = Inr u"
  shows "\<exists>tokenData.
           api_login api payload = Inr tokenData
         \<and> getItem (snd (login_dummy api payload st)) = Some (token tokenData)
         \<and> user (snd (login_dummy api payload st)) =
             Some \<lparr>userId = 1, username = payload_username payload\<rparr>
         \<and> isAuthenticated (snd (login_dummy api payload st))"
  using assms
  by (auto simp: login_dummy_def Let_def getItem_def saveAuthData_def split: sum.splits)

text \<open>
  C2, at a failing input. The version with the placeholder user, logging bob in at a server
  where bob has the id 2: the call succeeds and persists the token, but \<open>user\<close> is the
  record with the constant id 1, while the identity lookup with the stored token answers
  the id 2. (In the version with the lookup, \<open>login_lookup_success\<close> gives the claim.)
\<close>

theorem login_dummy_user_is_placeholder:
  "fst (login DummyUser example_api bob anonymous) = Inr ()
   \<and> getItem (snd (login DummyUser example_api bob anonymous)) = Some (js ''t2'')
   \<and> isAuthenticated (snd (login DummyUser example_api bob anonymous))
   \<and> user (snd (login DummyUser example_api bob anonymous)) =
       Some \<lparr>userId = 1, username = js ''bob''\<rparr>
   \<and> api_getMe example_api (accessToken (snd (login DummyUser example_api bob anonymous))) =
       Inr \<lparr>userId = 2, username = js ''bob''\<rparr>"
  by (simp add: login_def login_dummy_def example_api_def bob_def anonymous_def saveAuthData_def
        getItem_def accessToken_eq js_def)

subsection \<open>The check at startup\<close>

lemma checkAuthStatus_invalid_token:
  assumes "hasToken st" and "api_getMe api (accessToken st) = Inl error"
  shows "checkAuthStatus api st = (logout st)\<lparr>isLoading := False\<rparr>"
    and "getItem (checkAuthStatus api st) = None"
    and "\<not> isAuthenticated (checkAuthStatus api st)"
    and "user (checkAuthStatus api st) = None"
  using assms by (simp_all add: checkAuthStatus_def getItem_def logout_def)

lemma checkAuthStatus_valid_token:
  assumes "hasToken st" and "api_getMe api (accessToken st) = Inr userInfo"
  shows "checkAuthStatus api st = st\<lparr>isAuthenticated := True, user := Some userInfo, isLoading := False\<rparr>"
  using assms by (simp add: checkAuthStatus_def)

lemma checkAuthStatus_no_token:
  assumes "\<not> hasToken st"
  shows "checkAuthStatus api st = st\<lparr>isLoading := False\<rparr>"
  using assms by (simp add: checkAuthStatus_def)

lemma startup_not_loading: "\<not> isLoading (startup v api st)"
  by (cases v) (simp_all add: startup_def checkAuthStatus_def startup_dummy_def Let_def)

text \<open>
  C5, at a failing input. The version with the placeholder user, started with a stored
  token that the identity lookup refuses: no call is made, the session becomes
  authenticated as the placeholder user and the token stays in the storage. (In the
  version with the lookup, \<open>checkAuthStatus_invalid_token\<close>, \<open>checkAuthStatus_no_token\<close> and
  \<open>startup_not_loading\<close> give the claim.)
\<close>

theorem startup_dummy_keeps_invalid_token:
  "api_getMe example_api (js ''stale'') = Inl unauthorized
   \<and> isAuthenticated (startup DummyUser example_api (initial_state [JWT_STORAGE_KEY \<mapsto> js ''stale'']))
   \<and> user (startup DummyUser example_api (initial_state [JWT_STORAGE_KEY \<mapsto> js ''stale''])) =
       Some \<lparr>userId = 1, username = dummy_username\<rparr>
   \<and> getItem (startup DummyUser example_api (initial_state [JWT_STORAGE_KEY \<mapsto> js ''stale''])) =
       Some (js ''stale'')
   \<and> \<not> isLoading (startup DummyUser example_api (initial_state [JWT_STORAGE_KEY \<mapsto> js ''stale'']))"
  by (simp add: startup_def startup_dummy_def initial_state_def hasToken_def getItem_def
        example_api_def js_def)

section \<open>Properties of RegisterPage\<close>

lemma register_keeps_session: "snd (register api payload st) = st"
  by (simp add: register_def)

lemma register_passes_outcome: "fst (register api payload st) = api_register api payload"
  by (simp add: register_def)

lemma register_catch_conflict:
  "page_error (register_catch (ResponseError 409 body message) page) = Some msg_username_taken"
  by (simp add: register_catch_def)

lemma register_catch_bad_request:
  "serverMessage \<noteq> [] \<Longrightarrow>
   page_error (register_catch (ResponseError 400 (Some serverMessage) message) page) =
     Some serverMessage"
  by (simp add: register_catch_def)

lemma register_catch_bad_request_empty:
  "page_error (register_catch (ResponseError 400 (Some []) message) page) = Some msg_invalid_input"
  by (simp add: register_catch_def)

lemma register_catch_unauthorized:
  "page_error (register_catch (ResponseError 401 body message) page) =
     Some msg_registered_but_login_failed"
  by (simp add: register_catch_def)

lemma handleSubmit_register_fails:
  "api_register api \<lparr>payload_username = form_username page, payload_password = form_password page\<rparr>
     = Inl err \<Longrightarrow>
   handleSubmit v api (page, st) =
     (register_catch err (page\<lparr>page_error := None, successMessage := None, isSubmitting := True\<rparr>),
      st)"
  by (simp add: handleSubmit_def register_def Let_def)

lemma handleSubmit_register_unauthorized:
  "api_register api \<lparr>payload_username = form_username page, payload_password = form_password page\<rparr>
     = Inl (ResponseError 401 body message) \<Longrightarrow>
   page_error (fst (handleSubmit v api (page, st))) = Some msg_registered_but_login_failed"
  by (simp add: handleSubmit_register_fails register_catch_unauthorized)

lemma login_unauthorized_rethrown:
  "api_login api payload = Inl (ResponseError 401 body message) \<Longrightarrow>
   fst (login v api payload st) = Inl (Error msg_invalid_credentials)"
  by (cases v) (simp_all add: login_def login_lookup_unauthorized login_dummy_unauthorized)

lemma handleSubmit_login_unauthorized:
  assumes "api_register api \<lparr>payload_username = form_username page,
             payload_password = form_password page\<rparr> = Inr registeredUser"
    and "api_login api \<lparr>payload_username = form_username page,
             payload_password = form_password page\<rparr> = Inl (ResponseError 401 body message)"
  shows "page_error (fst (handleSubmit v api (page, st))) = Some msg_invalid_credentials"
proof -
  let ?payload = "\<lparr>payload_username = form_username page, payload_password = form_password page\<rparr>"
  obtain st2 where "login v api ?payload st = (Inl (Error msg_invalid_credentials), st2)"
    using login_unauthorized_rethrown [OF assms(2), of v st]
    by (cases "login v api ?payload st") simp
  with assms(1) show ?thesis
    by (simp add: handleSubmit_def register_def Let_def register_catch_def)
qed

lemma messages_differ: "msg_invalid_credentials \<noteq> msg_registered_but_login_failed"
  by (simp add: msg_invalid_credentials_def msg_registered_but_login_failed_def)

text \<open>
  C8, at a failing input. The form holds bob's name and password, the collaborator accepts
  the registration and answers 401 to the login that follows. With either version of the
  provider the page then shows the invalid-credentials message of \<open>login\<close>, which is not the
  message "registered, but the automatic login failed": \<open>login\<close> has replaced the
  \<open>ResponseError\<close> by a plain \<open>Error\<close>, so the page's test \<open>err instanceof ResponseError\<close> fails
  and its branch for the status 401 is not taken (that branch is reached only when the
  registration itself is answered with 401, \<open>handleSubmit_register_unauthorized\<close>). The
  session stays anonymous. (The other parts of the claim hold: \<open>register_catch_conflict\<close>,
  \<open>register_catch_bad_request\<close>, \<open>register_keeps_session\<close>.)
\<close>

theorem register_then_login_unauthorized_shows_login_message:
  "fst (register register_only_api bob anonymous) = Inr \<lparr>userId = 2, username = js ''bob''\<rparr>
   \<and> api_login register_only_api bob = Inl unauthorized
   \<and> page_error (fst (handleSubmit GetMeLookup register_only_api (bob_form, anonymous))) =
       Some msg_invalid_credentials
   \<and> page_error (fst (handleSubmit DummyUser register_only_api (bob_form, anonymous))) =
       Some msg_invalid_credentials
   \<and> msg_invalid_credentials \<noteq> msg_registered_but_login_failed
   \<and> \<not> isAuthenticated (snd (handleSubmit GetMeLookup register_only_api (bob_form, anonymous)))
   \<and> \<not> isAuthenticated (snd (handleSubmit DummyUser register_only_api (bob_form, anonymous)))"
proof -
  have reg: "api_register register_only_api
      \<lparr>payload_username = form_username bob_form, payload_password = form_password bob_form\<rparr>
      = Inr \<lparr>userId = 2, username = js ''bob''\<rparr>"
    by (simp add: register_only_api_def bob_form_def)
  have log: "api_login register_only_api
      \<lparr>payload_username = form_username bob_form, payload_password = form_password bob_form\<rparr>
      = Inl (ResponseError 401 None (js ''Response returned an error code''))"
    by (simp add: register_only_api_def unauthorized_def)
  have anonA: "\<not> isAuthenticated (snd (handleSubmit GetMeLookup register_only_api (bob_form, anonymous)))"
    using reg log
    by (simp add: handleSubmit_def register_def Let_def login_def login_lookup_unauthorized
          logout_def)
  have anonB: "\<not> isAuthenticated (snd (handleSubmit DummyUser register_only_api (bob_form, anonymous)))"
    using reg log
    by (simp add: handleSubmit_def register_def Let_def login_def login_dummy_unauthorized
          anonymous_def)
  have "fst (register register_only_api bob anonymous) = Inr \<lparr>userId = 2, username = js ''bob''\<rparr>"
    by (simp add: register_def register_only_api_def bob_def)
  moreover have "api_login register_only_api bob = Inl unauthorized"
    by (simp add: register_only_api_def)
  ultimately show ?thesis
    using handleSubmit_login_unauthorized [OF reg log] messages_differ anonA anonB by simp
qed

section \<open>Properties of HomePage\<close>

subsection \<open>Submitting a decision\<close>

text \<open>
  C1, as the code has it. \<open>handleRate\<close> takes a status and no id: the one call it makes
  carries the id of the paper on display, and without a paper it changes nothing and makes
  no call. \<open>mutate\<close> makes the call for whatever id it is given. Nothing compares an id with
  the paper on display, and nothing fails.
\<close>

theorem handleRate_submits_current_paper:
  "papers_calls (handleRate s st) =
     papers_calls st @ (case paper st of None \<Rightarrow> [] | Some p \<Rightarrow> [SetPaperStatus (paper_id p) s])
   \<and> handleRate s (st\<lparr>paper := None\<rparr>) = st\<lparr>paper := None\<rparr>
   \<and> papers_calls (mutate vars st) =
       papers_calls st @ [SetPaperStatus (paperId vars) (status vars)]"
  by (simp add: handleRate_def mutate_def mutationFn_def Let_def split: option.splits)

text \<open>
  C1 as stated fails. While paper 7 is on display, a submission for the id 8 (as a handler
  kept from an earlier render would make it) reaches the collaborator; and with no paper on
  display \<open>handleRate\<close> returns normally, leaving the state as it was.
\<close>

theorem submit_other_id_reaches_collaborator:
  "paper showing7 = Some paper7 \<and> paper_id paper7 = 7
   \<and> papers_calls (mutate \<lparr>paperId = 8, status = Read\<rparr> showing7) =
       papers_calls showing7 @ [SetPaperStatus 8 Read]
   \<and> paper mounted = None \<and> handleRate Liked mounted = mounted"
  by (simp add: showing7_def paper7_def mutate_def mutationFn_def mounted_def handleRate_def)

text \<open>
  C3, as the code has it. When the collaborator accepts a decision, exactly one key is
  invalidated: \<open>nextPaper\<close> for \<open>Read\<close>, \<open>likedPapers\<close> for \<open>Liked\<close>. The mutation ends as
  \<open>Success\<close> and is no longer pending, and the paper on display is untouched (a new one
  arrives only with the refetch that the invalidation of \<open>nextPaper\<close> causes).
\<close>

theorem accepted_decision_invalidates_one_key:
  "invalidated (mutation_settled (Inr u) vars st) =
     invalidated st @ [case status vars of Read \<Rightarrow> nextPaper | Liked \<Rightarrow> likedPapers]
   \<and> mutation (mutation_settled (Inr u) vars st) = Success
   \<and> \<not> isMutating (mutation_settled (Inr u) vars st)
   \<and> paper (mutation_settled (Inr u) vars st) = paper st"
  by (cases "status vars")
     (simp_all add: mutation_settled_def onSuccess_def invalidateQueries_def isMutating_def)

text \<open>
  C3 as stated fails for \<open>Liked\<close>: after an accepted \<open>Liked\<close> decision for paper 7 the key
  \<open>nextPaper\<close> has not been invalidated, and paper 7 is still on display.
\<close>

theorem accepted_like_keeps_next_paper:
  "status liked7 = Liked
   \<and> invalidated (mutation_settled (Inr ()) liked7 (handleRate Liked showing7)) = [likedPapers]
   \<and> nextPaper \<notin> set (invalidated (mutation_settled (Inr ()) liked7 (handleRate Liked showing7)))
   \<and> paper (mutation_settled (Inr ()) liked7 (handleRate Liked showing7)) = Some paper7"
  by (simp add: liked7_def mutation_settled_def onSuccess_def invalidateQueries_def
        handleRate_def mutate_def mutationFn_def showing7_def)

subsection \<open>The end of the queue\<close>

lemma retry_not_found: "\<not> retry k (ResponseError 404 body message)"
  by (simp add: retry_def is_not_found_def)

lemma fetch_attempts_stops_at_not_found:
  "getNextPaper n = Inl (ResponseError 404 body message) \<Longrightarrow>
   fetch_attempts getNextPaper n = (Inl (ResponseError 404 body message), n)"
  by (simp add: fetch_attempts.simps retry_not_found)

lemma fetch_attempts_skips_retried:
  assumes "\<forall>k<n. (case getNextPaper k of Inl e \<Rightarrow> retry k e | Inr p \<Rightarrow> False)"
    and "j \<le> n"
  shows "fetch_attempts getNextPaper j = fetch_attempts getNextPaper n"
  using assms(2)
proof (induction "n - j" arbitrary: j)
  case 0
  then show ?case by simp
next
  case (Suc d)
  then have "j < n" by simp
  with assms(1) have "(case getNextPaper j of Inl e \<Rightarrow> retry j e | Inr p \<Rightarrow> False)" by blast
  then obtain e where e: "getNextPaper j = Inl e" "retry j e"
    by (cases "getNextPaper j") auto
  have "fetch_attempts getNextPaper j = fetch_attempts getNextPaper (Suc j)"
    using e by (subst fetch_attempts.simps) simp
  also have "\<dots> = fetch_attempts getNextPaper n"
    using Suc.hyps(1) [of "Suc j"] Suc.hyps(2) \<open>j < n\<close> by simp
  finally show ?case .
qed

text \<open>
  C4. If the collaborator answers 404 to an attempt of a fetch (the attempts before it, if
  any, having failed with errors that were retried), the fetch settles with that answer:
  \<open>retry\<close> is false for it whatever the failure count, no attempt follows, and the page
  then renders the all-done view, neither the error view nor the loading view.
\<close>

theorem not_found_is_all_done:
  assumes answer: "getNextPaper n = Inl (ResponseError 404 body message)"
    and earlier: "\<forall>k<n. (case getNextPaper k of Inl e \<Rightarrow> retry k e | Inr p \<Rightarrow> False)"
  shows "fetch_attempts getNextPaper 0 = (Inl (ResponseError 404 body message), n)
       \<and> (\<forall>k. \<not> retry k (ResponseError 404 body message))
       \<and> papers_calls (fetchNext getNextPaper st) =
           papers_calls st @ replicate (Suc n) GetNextPaper
       \<and> render (fetchNext getNextPaper st) = AllDoneView"
proof -
  have settle: "fetch_attempts getNextPaper 0 = (Inl (ResponseError 404 body message), n)"
    using fetch_attempts_skips_retried [of n getNextPaper 0] earlier
      fetch_attempts_stops_at_not_found [of getNextPaper n body message] answer by simp
  then have "fetchNext getNextPaper st =
      query_failure (ResponseError 404 body message)
        (st\<lparr>papers_calls := papers_calls st @ replicate (Suc n) GetNextPaper\<rparr>)"
    by (simp add: fetchNext_def Let_def)
  then have "papers_calls (fetchNext getNextPaper st) =
        papers_calls st @ replicate (Suc n) GetNextPaper"
      and "render (fetchNext getNextPaper st) = AllDoneView"
    by (simp_all add: query_failure_def render_def is_not_found_def)
  with settle retry_not_found show ?thesis by blast
qed

theorem not_found_is_all_done_witness:
  "server_error_then_not_found 1 = Inl not_found
   \<and> (case server_error_then_not_found 0 of Inl e \<Rightarrow> retry 0 e | Inr p \<Rightarrow> False)
   \<and> fetch_attempts server_error_then_not_found 0 = (Inl not_found, 1)
   \<and> papers_calls (fetchNext server_error_then_not_found showing7) =
       [GetNextPaper, GetNextPaper, GetNextPaper]
   \<and> render (fetchNext server_error_then_not_found showing7) = AllDoneView"
proof -
  have answer: "server_error_then_not_found 1 =
      Inl (ResponseError 404 None (js ''Response returned an error code''))"
    by (simp add: server_error_then_not_found_def not_found_def)
  have first: "(case server_error_then_not_found 0 of Inl e \<Rightarrow> retry 0 e | Inr p \<Rightarrow> False)"
    by (simp add: server_error_then_not_found_def retry_def is_not_found_def)
  then have earlier:
    "\<forall>k<1. (case server_error_then_not_found k of Inl e \<Rightarrow> retry k e | Inr p \<Rightarrow> False)"
    by simp
  have calls: "papers_calls showing7 @ replicate (Suc 1) GetNextPaper =
      [GetNextPaper, GetNextPaper, GetNextPaper]"
    by (simp add: showing7_def numeral_2_eq_2)
  show ?thesis
    using not_found_is_all_done [OF answer earlier, of showing7] answer first calls
    by (simp add: not_found_def)
qed

subsection \<open>The star\<close>

lemma handleRate_keeps_mark: "isCurrentLiked st \<Longrightarrow> isCurrentLiked (handleRate s st)"
  by (simp add: handleRate_def mutate_def mutationFn_def Let_def split: option.splits)

lemma mutation_accepted_keeps_mark:
  "isCurrentLiked (mutation_settled (Inr u) vars st) = isCurrentLiked st"
  by (simp add: mutation_settled_def onSuccess_def invalidateQueries_def Let_def)

lemma mutation_refused_mark:
  "isCurrentLiked (mutation_settled (Inl err) vars st) =
     (if status vars = Liked then False else isCurrentLiked st)"
  by (simp add: mutation_settled_def onError_def)

lemma fetchNext_mark:
  "isCurrentLiked st \<Longrightarrow> \<not> isCurrentLiked (fetchNext getNextPaper st) \<Longrightarrow>
   map_option paper_id (paper (fetchNext getNextPaper st)) \<noteq> map_option paper_id (paper st)"
  by (cases "paper st")
     (auto simp: fetchNext_def Let_def query_success_def query_failure_def
        split: prod.splits sum.splits if_splits)

text \<open>
  C6. A click on the star while a paper is on display sets \<open>isCurrentLiked\<close> in the same
  step that starts the call, so the mark is there while the call is pending. A failure of
  a \<open>Liked\<close> call clears it. No other settling and no click clears it: a mark that
  disappears in a step was cleared either by such a failure or by the arrival of a paper
  with another id (the reset for a new paper).
\<close>

theorem liked_mark_set_at_once_cleared_on_failure:
  "(paper st = Some p \<longrightarrow>
      isCurrentLiked (handleRate Liked st) \<and> isMutating (handleRate Liked st))
   \<and> (status vars = Liked \<longrightarrow> \<not> isCurrentLiked (mutation_settled (Inl err) vars st))
   \<and> (isCurrentLiked st \<and> \<not> isCurrentLiked (home_step st ev) \<longrightarrow>
        (\<exists>err vars. ev = MutationSettled (Inl err) vars \<and> status vars = Liked)
        \<or> (\<exists>getNextPaper. ev = Fetched getNextPaper
             \<and> map_option paper_id (paper (home_step st ev)) \<noteq> map_option paper_id (paper st)))"
proof -
  have set_at_once: "paper st = Some p \<longrightarrow>
      isCurrentLiked (handleRate Liked st) \<and> isMutating (handleRate Liked st)"
    by (simp add: handleRate_def mutate_def mutationFn_def isMutating_def)
  have cleared: "status vars = Liked \<longrightarrow> \<not> isCurrentLiked (mutation_settled (Inl err) vars st)"
    by (simp add: mutation_refused_mark)
  have only: "isCurrentLiked st \<and> \<not> isCurrentLiked (home_step st ev) \<longrightarrow>
        (\<exists>err vars. ev = MutationSettled (Inl err) vars \<and> status vars = Liked)
        \<or> (\<exists>getNextPaper. ev = Fetched getNextPaper
             \<and> map_option paper_id (paper (home_step st ev)) \<noteq> map_option paper_id (paper st))"
  proof (cases ev)
    case (Rate s)
    then show ?thesis by (simp add: handleRate_keeps_mark)
  next
    case (MutationSettled outcome vars')
    then show ?thesis
      by (cases outcome)
         (auto simp: mutation_accepted_keeps_mark mutation_refused_mark split: if_splits)
  next
    case (Fetched getNextPaper)
    then show ?thesis using fetchNext_mark [of st getNextPaper] by auto
  qed
  from set_at_once cleared only show ?thesis by blast
qed

theorem liked_mark_set_at_once_cleared_on_failure_witness:
  "paper showing7 = Some paper7
   \<and> isCurrentLiked (handleRate Liked showing7) \<and> isMutating (handleRate Liked showing7)
   \<and> status liked7 = Liked
   \<and> \<not> isCurrentLiked (mutation_settled (Inl not_found) liked7 (handleRate Liked showing7))
   \<and> \<not> isCurrentLiked
         (home_step (handleRate Liked showing7) (MutationSettled (Inl not_found) liked7))
   \<and> ((\<exists>err vars. MutationSettled (Inl not_found) liked7 = MutationSettled (Inl err) vars
          \<and> status vars = Liked)
        \<or> (\<exists>getNextPaper. MutationSettled (Inl not_found) liked7 = Fetched getNextPaper
             \<and> map_option paper_id
                 (paper (home_step (handleRate Liked showing7)
                    (MutationSettled (Inl not_found) liked7)))
               \<noteq> map_option paper_id (paper (handleRate Liked showing7))))"
proof -
  have shown: "paper showing7 = Some paper7" by (simp add: showing7_def)
  have liked: "status liked7 = Liked" by (simp add: liked7_def)
  show ?thesis
    using liked_mark_set_at_once_cleared_on_failure
            [of showing7 paper7 liked7 not_found
                "MutationSettled (Inl not_found) liked7"]
          liked_mark_set_at_once_cleared_on_failure
            [of "handleRate Liked showing7" paper7 liked7 not_found
                "MutationSettled (Inl not_found) liked7"]
          shown liked
    by (simp add: mutation_refused_mark)
qed

end
